theory Spec2Isabelle
  imports Complex_Main
begin

section \<open>Python values used by the notebook\<close>

text \<open>
  A Python \<open>float\<close> is a binary64 value: a finite number, one of the two infinities, or
  NaN. Every finite binary64 value is a real number, and \<open><\<close> on floats is the order of
  the reals on finite values, with the infinities at the ends and NaN comparing false with
  everything. The two signed zeros compare equal and are both \<open>Finite 0\<close>.
\<close>

datatype pyfloat = Finite real | PInf | NInf | NaN

fun float_lt :: "pyfloat \<Rightarrow> pyfloat \<Rightarrow> bool" where
  "float_lt (Finite a) (Finite b) = (a < b)"
| "float_lt (Finite a) PInf = True"
| "float_lt NInf (Finite b) = True"
| "float_lt NInf PInf = True"
| "float_lt _ _ = False"

fun float_is_zero :: "pyfloat \<Rightarrow> bool" where
  "float_is_zero (Finite a) = (a = 0)"
| "float_is_zero _ = False"

text \<open>The exceptions the notebook's own statements can raise.\<close>

datatype py_error = UnboundLocalError | ZeroDivisionError | FileNotFoundError

section \<open>The collaborators the notebook imports\<close>

text \<open>
  One item of a data loader: the batched graph and the label dictionary with its keys
  \<open>"value"\<close> (the normalised targets), \<open>"scaler_stdev"\<close> and \<open>"reaction"\<close>.
\<close>

record ('x, 'r) batch =
  batched_graph :: 'x
  label_value :: "pyfloat list"
  label_scaler_stdev :: "pyfloat list"
  label_reaction :: 'r

text \<open>
  The model object as the notebook sees it: its parameters (\<open>model.state_dict()\<close>), the
  mode flag toggled by \<open>model.train()\<close> and \<open>model.eval()\<close>, and the gradient
  accumulators attached to the parameters.
\<close>

record ('p, 'g) model =
  state_dict :: 'p
  training :: bool
  grad :: 'g

text \<open>
  The imported library is not part of the notebook; its operations are parameters. The
  forward pass is taken as a function of the mode, the parameters and its inputs.
  \<^item> \<open>forward tr p x r\<close> is \<open>model(batched_graph, feats, label["reaction"]).view(-1)\<close>
    in mode \<open>tr\<close> with parameters \<open>p\<close> (\<open>feats\<close> is read off the batched graph);
  \<^item> \<open>loss_fn\<close> and \<open>metric_fn\<close> are the values \<open>.item()\<close> extracts;
  \<^item> \<open>backward tr p b g\<close> is the accumulator after \<open>loss.backward()\<close> for the loss of
    batch \<open>b\<close> at parameters \<open>p\<close>, when it held \<open>g\<close> before;
  \<^item> \<open>zero_grad\<close> is \<open>optimizer.zero_grad()\<close> on the accumulator;
  \<^item> \<open>opt_step o p g\<close> is \<open>optimizer.step()\<close>: the optimizer's new internal state and the
    new parameters;
  \<^item> \<open>float_add\<close> and \<open>float_div\<close> are binary64 addition and division (the latter is only
    used with a divisor that is not zero).
\<close>

record ('p, 'g, 'o, 'x, 'r) env =
  forward :: "bool \<Rightarrow> 'p \<Rightarrow> 'x \<Rightarrow> 'r \<Rightarrow> pyfloat list"
  loss_fn :: "pyfloat list \<Rightarrow> pyfloat list \<Rightarrow> pyfloat"
  metric_fn :: "pyfloat list \<Rightarrow> pyfloat list \<Rightarrow> pyfloat list \<Rightarrow> pyfloat"
  backward :: "bool \<Rightarrow> 'p \<Rightarrow> ('x, 'r) batch \<Rightarrow> 'g \<Rightarrow> 'g"
  zero_grad :: "'g \<Rightarrow> 'g"
  opt_step :: "'o \<Rightarrow> 'p \<Rightarrow> 'g \<Rightarrow> 'o \<times> 'p"
  float_add :: "pyfloat \<Rightarrow> pyfloat \<Rightarrow> pyfloat"
  float_div :: "pyfloat \<Rightarrow> pyfloat \<Rightarrow> pyfloat"

text \<open>Python's \<open>/\<close> on floats raises when the divisor is zero, whatever the dividend.\<close>

definition py_truediv ::
  "('p, 'g, 'o, 'x, 'r) env \<Rightarrow> pyfloat \<Rightarrow> pyfloat \<Rightarrow> py_error + pyfloat" where
  "py_truediv E a b = (if float_is_zero b then Inl ZeroDivisionError else Inr (float_div E a b))"

section \<open>\<open>train\<close>\<close>

text \<open>
  The local variables of \<open>train\<close>. The loop index \<open>it\<close> is unbound until the first
  iteration assigns it. \<open>count\<close> is a float in the source that only ever holds a sum of
  list lengths, which binary64 represents exactly; it is kept as that integer.
\<close>

record ('p, 'g, 'o) train_vars =
  tv_it :: "nat option"
  tv_epoch_loss :: pyfloat
  tv_accuracy :: pyfloat
  tv_count :: nat
  tv_optimizer :: 'o
  tv_model :: "('p, 'g) model"

text \<open>The body of the \<open>for\<close> loop of \<open>train\<close>, statement by statement.\<close>

definition train_body ::
  "('p, 'g, 'o, 'x, 'r) env \<Rightarrow> nat \<Rightarrow> ('x, 'r) batch \<Rightarrow> ('p, 'g, 'o) train_vars
     \<Rightarrow> ('p, 'g, 'o) train_vars" where
  "train_body E i b v =
     (let m = tv_model v;
          target = label_value b;
          stdev = label_scaler_stdev b;
          pred = forward E (training m) (state_dict m) (batched_graph b) (label_reaction b);
          loss = loss_fn E pred target;
          m1 = m\<lparr>grad := zero_grad E (grad m)\<rparr>;
          m2 = m1\<lparr>grad := backward E (training m1) (state_dict m1) b (grad m1)\<rparr>;
          (opt', p') = opt_step E (tv_optimizer v) (state_dict m2) (grad m2);
          m3 = m2\<lparr>state_dict := p'\<rparr>
      in v\<lparr>tv_it := Some i,
            tv_epoch_loss := float_add E (tv_epoch_loss v) loss,
            tv_accuracy := float_add E (tv_accuracy v) (metric_fn E pred target stdev),
            tv_count := tv_count v + length target,
            tv_optimizer := opt',
            tv_model := m3\<rparr>)"

fun train_loop ::
  "('p, 'g, 'o, 'x, 'r) env \<Rightarrow> (nat \<times> ('x, 'r) batch) list \<Rightarrow> ('p, 'g, 'o) train_vars
     \<Rightarrow> ('p, 'g, 'o) train_vars" where
  "train_loop E [] v = v"
| "train_loop E ((i, b) # rest) v = train_loop E rest (train_body E i b v)"

definition train ::
  "('p, 'g, 'o, 'x, 'r) env \<Rightarrow> 'o \<Rightarrow> ('p, 'g) model \<Rightarrow> ('x, 'r) batch list
     \<Rightarrow> py_error + ((pyfloat \<times> pyfloat) \<times> 'o \<times> ('p, 'g) model)" where
  "train E optimizer m data_loader =
     (let v = train_loop E (enumerate 0 data_loader)
                \<lparr>tv_it = None, tv_epoch_loss = Finite 0, tv_accuracy = Finite 0, tv_count = 0,
                 tv_optimizer = optimizer, tv_model = m\<lparr>training := True\<rparr>\<rparr>
      in case tv_it v of
           None \<Rightarrow> Inl UnboundLocalError
         | Some i \<Rightarrow>
             (case py_truediv E (tv_epoch_loss v) (Finite (real (i + 1))) of
                Inl e \<Rightarrow> Inl e
              | Inr epoch_loss \<Rightarrow>
                  (case py_truediv E (tv_accuracy v) (Finite (real (tv_count v))) of
                     Inl e \<Rightarrow> Inl e
                   | Inr accuracy \<Rightarrow> Inr ((epoch_loss, accuracy), tv_optimizer v, tv_model v))))"

section \<open>\<open>evaluate\<close>\<close>

fun eval_loop ::
  "('p, 'g, 'o, 'x, 'r) env \<Rightarrow> ('p, 'g) model \<Rightarrow> ('x, 'r) batch list \<Rightarrow> pyfloat \<times> nat
     \<Rightarrow> pyfloat \<times> nat" where
  "eval_loop E m [] acc = acc"
| "eval_loop E m (b # rest) (accuracy, count) =
     (let target = label_value b;
          stdev = label_scaler_stdev b;
          pred = forward E (training m) (state_dict m) (batched_graph b) (label_reaction b)
      in eval_loop E m rest
           (float_add E accuracy (metric_fn E pred target stdev), count + length target))"

definition evaluate ::
  "('p, 'g, 'o, 'x, 'r) env \<Rightarrow> ('p, 'g) model \<Rightarrow> ('x, 'r) batch list
     \<Rightarrow> py_error + (pyfloat \<times> ('p, 'g) model)" where
  "evaluate E m data_loader =
     (let m0 = m\<lparr>training := False\<rparr>;
          (accuracy, count) = eval_loop E m0 data_loader (Finite 0, 0)
      in case py_truediv E accuracy (Finite (real count)) of
           Inl e \<Rightarrow> Inl e
         | Inr a \<Rightarrow> Inr (a, m0))"

section \<open>The main training cell\<close>

text \<open>What the cell prints: the header, one line per epoch, the final test line.\<close>

datatype out_line = Header | Progress nat pyfloat pyfloat pyfloat | TestAcc pyfloat

text \<open>
  The state of the cell: the model and optimizer objects, the variable \<open>best\<close>, the file
  \<open>checkpoint.pkl\<close> (absent, or holding a saved state dict) and the lines printed so far.
  \<open>save_calls\<close> counts the calls of \<open>torch.save\<close>; it is bookkeeping for statements
  about how often a checkpoint was written and is read by no definition.
\<close>

record ('p, 'g, 'o) notebook =
  nb_model :: "('p, 'g) model"
  nb_optimizer :: 'o
  best :: pyfloat
  checkpoint_pkl :: "'p option"
  stdout :: "out_line list"
  save_calls :: nat

text \<open>
  The three loaders of the notebook. The training loader shuffles, so each pass over it
  may yield other batches; \<open>train_loader k\<close> is what its \<open>k\<close>-th pass yields.
\<close>

record ('x, 'r) loaders =
  train_loader :: "nat \<Rightarrow> ('x, 'r) batch list"
  val_loader :: "('x, 'r) batch list"
  test_loader :: "('x, 'r) batch list"

text \<open>
  The checkpoint block of the loop: \<open>is_best = val_acc < best\<close>, and when it holds,
  \<open>best = val_acc\<close> and \<open>torch.save(model.state_dict(), 'checkpoint.pkl')\<close>.
\<close>

definition maybe_save ::
  "pyfloat \<Rightarrow> 'p \<Rightarrow> ('p, 'g, 'o) notebook \<Rightarrow> ('p, 'g, 'o) notebook" where
  "maybe_save val_acc sd s =
     (let is_best = float_lt val_acc (best s)
      in if is_best
         then s\<lparr>best := val_acc, checkpoint_pkl := Some sd, save_calls := Suc (save_calls s)\<rparr>
         else s)"

text \<open>\<open>torch.load("checkpoint.pkl")\<close>\<close>

definition torch_load :: "'p option \<Rightarrow> py_error + 'p" where
  "torch_load file = (case file of None \<Rightarrow> Inl FileNotFoundError | Some sd \<Rightarrow> Inr sd)"

text \<open>The body of \<open>for epoch in range(num_epochs)\<close>.\<close>

definition epoch_body ::
  "('p, 'g, 'o, 'x, 'r) env \<Rightarrow> ('x, 'r) loaders \<Rightarrow> nat \<Rightarrow> ('p, 'g, 'o) notebook
     \<Rightarrow> py_error + ('p, 'g, 'o) notebook" where
  "epoch_body E ld epoch s =
     (case train E (nb_optimizer s) (nb_model s) (train_loader ld epoch) of
        Inl e \<Rightarrow> Inl e
      | Inr ((loss, train_acc), opt1, m1) \<Rightarrow>
          (case evaluate E m1 (val_loader ld) of
             Inl e \<Rightarrow> Inl e
           | Inr (val_acc, m2) \<Rightarrow>
               (let s1 = s\<lparr>nb_model := m2, nb_optimizer := opt1\<rparr>;
                    s2 = maybe_save val_acc (state_dict (nb_model s1)) s1
                in Inr (s2\<lparr>stdout := stdout s2 @ [Progress epoch loss train_acc val_acc]\<rparr>))))"

fun epoch_loop ::
  "('p, 'g, 'o, 'x, 'r) env \<Rightarrow> ('x, 'r) loaders \<Rightarrow> nat list \<Rightarrow> ('p, 'g, 'o) notebook
     \<Rightarrow> py_error + ('p, 'g, 'o) notebook" where
  "epoch_loop E ld [] s = Inr s"
| "epoch_loop E ld (epoch # rest) s =
     (case epoch_body E ld epoch s of
        Inl e \<Rightarrow> Inl e
      | Inr s' \<Rightarrow> epoch_loop E ld rest s')"

text \<open>
  The cell up to the end of the loop: \<open>best = 1e10\<close>, the header, the epochs. The
  notebook fixes \<open>num_epochs = 20\<close>; it is a parameter here. \<open>file0\<close> is what
  \<open>checkpoint.pkl\<close> holds when the cell starts.
\<close>

definition run_epochs ::
  "('p, 'g, 'o, 'x, 'r) env \<Rightarrow> nat \<Rightarrow> ('x, 'r) loaders \<Rightarrow> ('p, 'g) model \<Rightarrow> 'o \<Rightarrow> 'p option
     \<Rightarrow> py_error + ('p, 'g, 'o) notebook" where
  "run_epochs E num_epochs ld m optimizer file0 =
     epoch_loop E ld [0..<num_epochs]
       \<lparr>nb_model = m, nb_optimizer = optimizer, best = Finite 10000000000,
        checkpoint_pkl = file0, stdout = [Header], save_calls = 0\<rparr>"

text \<open>The whole cell: the loop, then load, restore, evaluate on the test set, print.\<close>

definition main ::
  "('p, 'g, 'o, 'x, 'r) env \<Rightarrow> nat \<Rightarrow> ('x, 'r) loaders \<Rightarrow> ('p, 'g) model \<Rightarrow> 'o \<Rightarrow> 'p option
     \<Rightarrow> py_error + ('p, 'g, 'o) notebook" where
  "main E num_epochs ld m optimizer file0 =
     (case run_epochs E num_epochs ld m optimizer file0 of
        Inl e \<Rightarrow> Inl e
      | Inr s \<Rightarrow>
          (case torch_load (checkpoint_pkl s) of
             Inl e \<Rightarrow> Inl e
           | Inr checkpoint \<Rightarrow>
               (case evaluate E ((nb_model s)\<lparr>state_dict := checkpoint\<rparr>) (test_loader ld) of
                  Inl e \<Rightarrow> Inl e
                | Inr (test_acc, m') \<Rightarrow>
                    Inr (s\<lparr>nb_model := m', stdout := stdout s @ [TestAcc test_acc]\<rparr>))))"

section \<open>Reference formulations\<close>

subsection \<open>A sequence of checkpoint decisions\<close>

text \<open>A finite sequence of calls of the checkpoint block, each with its metric and state.\<close>

definition save_seq ::
  "(pyfloat \<times> 'p) list \<Rightarrow> ('p, 'g, 'o) notebook \<Rightarrow> ('p, 'g, 'o) notebook" where
  "save_seq calls s = foldl (\<lambda>s' (v, sd). maybe_save v sd s') s calls"

subsection \<open>The per-batch update, in the two orders\<close>

text \<open>
  What one batch does to the optimizer and the model when the accumulator is reset first,
  the gradient of the batch is then accumulated, and the step is taken with it.
\<close>

definition batch_update ::
  "('p, 'g, 'o, 'x, 'r) env \<Rightarrow> ('x, 'r) batch \<Rightarrow> 'o \<times> ('p, 'g) model \<Rightarrow> 'o \<times> ('p, 'g) model" where
  "batch_update E b = (\<lambda>(opt, m).
     (let g = backward E (training m) (state_dict m) b (zero_grad E (grad m));
          (opt', p') = opt_step E opt (state_dict m) g
      in (opt', m\<lparr>state_dict := p', grad := g\<rparr>)))"

text \<open>
  The order of the specification's words: the gradient is accumulated, the step is taken,
  and the accumulator is reset after the step.
\<close>

definition batch_update_reset_after ::
  "('p, 'g, 'o, 'x, 'r) env \<Rightarrow> ('x, 'r) batch \<Rightarrow> 'o \<times> ('p, 'g) model \<Rightarrow> 'o \<times> ('p, 'g) model" where
  "batch_update_reset_after E b = (\<lambda>(opt, m).
     (let g = backward E (training m) (state_dict m) b (grad m);
          (opt', p') = opt_step E opt (state_dict m) g
      in (opt', m\<lparr>state_dict := p', grad := zero_grad E g\<rparr>)))"

subsection \<open>The per-batch quantities of one training pass\<close>

text \<open>
  For each batch of a pass, in order: its loss, its metric value and its number of
  examples, each taken at the parameters the model has when the batch is reached.
\<close>

fun batch_results ::
  "('p, 'g, 'o, 'x, 'r) env \<Rightarrow> 'o \<times> ('p, 'g) model \<Rightarrow> ('x, 'r) batch list
     \<Rightarrow> (pyfloat \<times> pyfloat \<times> nat) list" where
  "batch_results E om [] = []"
| "batch_results E om (b # rest) =
     (let m = snd om;
          pred = forward E (training m) (state_dict m) (batched_graph b) (label_reaction b)
      in (loss_fn E pred (label_value b),
          metric_fn E pred (label_value b) (label_scaler_stdev b),
          length (label_value b)) # batch_results E (batch_update E b om) rest)"

definition num_examples :: "('x, 'r) batch list \<Rightarrow> nat" where
  "num_examples data_loader = sum_list (map (\<lambda>b. length (label_value b)) data_loader)"

subsection \<open>The driver in terms of a checkpoint manager\<close>

record 'p ckpt_manager =
  best_so_far :: pyfloat
  storage :: "'p option"

definition spec_maybe_save :: "pyfloat \<Rightarrow> 'p \<Rightarrow> 'p ckpt_manager \<Rightarrow> 'p ckpt_manager" where
  "spec_maybe_save current_val_metric predictor_state cm =
     (if float_lt current_val_metric (best_so_far cm)
      then \<lparr>best_so_far = current_val_metric, storage = Some predictor_state\<rparr>
      else cm)"

definition spec_load_best :: "'p ckpt_manager \<Rightarrow> py_error + 'p" where
  "spec_load_best cm = (case storage cm of None \<Rightarrow> Inl FileNotFoundError | Some st \<Rightarrow> Inr st)"

record ('p, 'g, 'o) driver_state =
  predictor :: "('p, 'g) model"
  ds_optimizer :: 'o
  manager :: "'p ckpt_manager"
  emitted :: "out_line list"

text \<open>
  One epoch: the training pass, the evaluation pass on the validation split, the
  manager's decision, the progress record.
\<close>

definition spec_epoch ::
  "('p, 'g, 'o, 'x, 'r) env \<Rightarrow> ('x, 'r) loaders \<Rightarrow> nat \<Rightarrow> ('p, 'g, 'o) driver_state
     \<Rightarrow> py_error + ('p, 'g, 'o) driver_state" where
  "spec_epoch E ld epoch d =
     (case train E (ds_optimizer d) (predictor d) (train_loader ld epoch) of
        Inl e \<Rightarrow> Inl e
      | Inr ((loss, train_acc), opt1, m1) \<Rightarrow>
          (case evaluate E m1 (val_loader ld) of
             Inl e \<Rightarrow> Inl e
           | Inr (val_acc, m2) \<Rightarrow>
               Inr \<lparr>predictor = m2, ds_optimizer = opt1,
                    manager = spec_maybe_save val_acc (state_dict m2) (manager d),
                    emitted = emitted d @ [Progress epoch loss train_acc val_acc]\<rparr>))"

text \<open>Epochs \<open>0\<close> to \<open>n - 1\<close>, in order: the first \<open>n - 1\<close> of them, then epoch \<open>n - 1\<close>.\<close>

fun spec_epochs ::
  "('p, 'g, 'o, 'x, 'r) env \<Rightarrow> ('x, 'r) loaders \<Rightarrow> nat \<Rightarrow> ('p, 'g, 'o) driver_state
     \<Rightarrow> py_error + ('p, 'g, 'o) driver_state" where
  "spec_epochs E ld 0 d = Inr d"
| "spec_epochs E ld (Suc n) d =
     (case spec_epochs E ld n d of
        Inl e \<Rightarrow> Inl e
      | Inr d' \<Rightarrow> spec_epoch E ld n d')"

definition spec_driver ::
  "('p, 'g, 'o, 'x, 'r) env \<Rightarrow> nat \<Rightarrow> ('x, 'r) loaders \<Rightarrow> ('p, 'g, 'o) driver_state
     \<Rightarrow> py_error + ('p, 'g, 'o) driver_state" where
  "spec_driver E num_epochs ld d =
     (case spec_epochs E ld num_epochs d of
        Inl e \<Rightarrow> Inl e
      | Inr d1 \<Rightarrow>
          (case spec_load_best (manager d1) of
             Inl e \<Rightarrow> Inl e
           | Inr st \<Rightarrow>
               (case evaluate E ((predictor d1)\<lparr>state_dict := st\<rparr>) (test_loader ld) of
                  Inl e \<Rightarrow> Inl e
                | Inr (test_acc, m') \<Rightarrow>
                    Inr (d1\<lparr>predictor := m', emitted := emitted d1 @ [TestAcc test_acc]\<rparr>))))"

text \<open>How a state of the cell reads as a state of that driver.\<close>

definition driver_view :: "('p, 'g, 'o) notebook \<Rightarrow> ('p, 'g, 'o) driver_state" where
  "driver_view s =
     \<lparr>predictor = nb_model s, ds_optimizer = nb_optimizer s,
      manager = \<lparr>best_so_far = best s, storage = checkpoint_pkl s\<rparr>,
      emitted = stdout s\<rparr>"

subsection \<open>The validation column of the printed lines\<close>


section \<open>A small concrete instance\<close>

text \<open>
  Arithmetic on \<open>pyfloat\<close> without rounding, for running the definitions on values where
  binary64 is exact.
\<close>

fun exact_add :: "pyfloat \<Rightarrow> pyfloat \<Rightarrow> pyfloat" where
  "exact_add (Finite a) (Finite b) = Finite (a + b)"
| "exact_add NaN _ = NaN"
| "exact_add _ NaN = NaN"
| "exact_add PInf NInf = NaN"
| "exact_add NInf PInf = NaN"
| "exact_add PInf _ = PInf"
| "exact_add _ PInf = PInf"
| "exact_add NInf _ = NInf"
| "exact_add _ NInf = NInf"

fun exact_div :: "pyfloat \<Rightarrow> pyfloat \<Rightarrow> pyfloat" where
  "exact_div (Finite a) (Finite b) = Finite (a / b)"
| "exact_div NaN _ = NaN"
| "exact_div _ NaN = NaN"
| "exact_div (Finite a) _ = Finite 0"
| "exact_div PInf (Finite b) = (if 0 < b then PInf else NInf)"
| "exact_div NInf (Finite b) = (if 0 < b then NInf else PInf)"
| "exact_div _ _ = NaN"

text \<open>
  A model with one integer parameter: the prediction is the parameter, every batch has
  loss \<open>1\<close> and gradient \<open>1\<close>, the metric of a batch is \<open>mv\<close>, and a step subtracts the
  accumulated gradient from the parameter and counts itself.
\<close>

definition toy_env :: "pyfloat \<Rightarrow> (int, int, nat, unit, unit) env" where
  "toy_env mv =
     \<lparr>forward = (\<lambda>tr p x r. [Finite (real_of_int p)]),
      loss_fn = (\<lambda>pred target. Finite 1),
      metric_fn = (\<lambda>pred target stdev. mv),
      backward = (\<lambda>tr p b g. g + 1),
      zero_grad = (\<lambda>g. 0),
      opt_step = (\<lambda>opt p g. (Suc opt, p - g)),
      float_add = exact_add,
      float_div = exact_div\<rparr>"

definition toy_batch :: "(unit, unit) batch" where
  "toy_batch =
     \<lparr>batched_graph = (), label_value = [Finite 0], label_scaler_stdev = [Finite 1],
      label_reaction = ()\<rparr>"

text \<open>A batch of three examples, and one of none.\<close>

definition toy_batch3 :: "(unit, unit) batch" where
  "toy_batch3 =
     \<lparr>batched_graph = (), label_value = [Finite 0, Finite 1, Finite 2],
      label_scaler_stdev = [Finite 1], label_reaction = ()\<rparr>"

definition toy_batch0 :: "(unit, unit) batch" where
  "toy_batch0 =
     \<lparr>batched_graph = (), label_value = [], label_scaler_stdev = [Finite 1],
      label_reaction = ()\<rparr>"

definition toy_model :: "(int, int) model" where
  "toy_model = \<lparr>state_dict = 7, training = False, grad = 0\<rparr>"

definition toy_loaders :: "(unit, unit) loaders" where
  "toy_loaders =
     \<lparr>train_loader = (\<lambda>k. [toy_batch]), val_loader = [toy_batch], test_loader = [toy_batch]\<rparr>"

definition toy_notebook :: "(int, int, nat) notebook" where
  "toy_notebook =
     \<lparr>nb_model = toy_model, nb_optimizer = 0, best = Finite 10000000000,
      checkpoint_pkl = None, stdout = [Header], save_calls = 0\<rparr>"

text \<open>The variables of \<open>train\<close> when its loop is entered with that model.\<close>

definition toy_vars :: "(int, int, nat) train_vars" where
  "toy_vars =
     \<lparr>tv_it = None, tv_epoch_loss = Finite 0, tv_accuracy = Finite 0, tv_count = 0,
      tv_optimizer = 0, tv_model = toy_model\<lparr>training := True\<rparr>\<rparr>"

text \<open>The four calls of the checkpoint scenario, with states told apart by a number.\<close>

definition toy_calls :: "(pyfloat \<times> int) list" where
  "toy_calls = [(Finite 5, 50), (Finite 3, 30), (Finite 4, 40), (Finite 2, 20)]"

section \<open>Running the concrete instance\<close>

lemmas toy_defs = toy_env_def toy_batch_def toy_batch3_def toy_batch0_def toy_model_def
  toy_loaders_def toy_notebook_def toy_vars_def toy_calls_def

lemmas run_defs = train_def train_body_def evaluate_def py_truediv_def epoch_body_def
  maybe_save_def run_epochs_def main_def torch_load_def

lemma upt_0_2: "[0..<2] = [0, Suc 0]"
  by (simp add: upt_rec numeral_2_eq_2)

section \<open>Facts about the loops\<close>

lemma float_lt_nan [simp]: "float_lt NaN b = False"
  by (cases b) simp_all

lemma train_body_update:
  "(tv_optimizer (train_body E i b v), tv_model (train_body E i b v)) =
     batch_update E b (tv_optimizer v, tv_model v)"
  by (simp add: train_body_def batch_update_def Let_def split: prod.split)

lemma train_body_it: "tv_it (train_body E i b v) = Some i"
  by (simp add: train_body_def Let_def split: prod.split)

lemma train_body_count:
  "tv_count (train_body E i b v) = tv_count v + length (label_value b)"
  by (simp add: train_body_def Let_def split: prod.split)

lemma train_body_epoch_loss:
  "tv_epoch_loss (train_body E i b v) =
     float_add E (tv_epoch_loss v)
       (loss_fn E (forward E (training (tv_model v)) (state_dict (tv_model v))
                     (batched_graph b) (label_reaction b)) (label_value b))"
  by (simp add: train_body_def Let_def split: prod.split)

lemma train_body_accuracy:
  "tv_accuracy (train_body E i b v) =
     float_add E (tv_accuracy v)
       (metric_fn E (forward E (training (tv_model v)) (state_dict (tv_model v))
                       (batched_graph b) (label_reaction b))
          (label_value b) (label_scaler_stdev b))"
  by (simp add: train_body_def Let_def split: prod.split)

lemma train_loop_it:
  "tv_it (train_loop E (enumerate n bs) v) =
     (if bs = [] then tv_it v else Some (n + length bs - 1))"
  by (induction bs arbitrary: n v) (auto simp: train_body_it)

lemma train_loop_count:
  "tv_count (train_loop E (enumerate n bs) v) = tv_count v + num_examples bs"
  by (induction bs arbitrary: n v) (simp_all add: num_examples_def train_body_count)

lemma train_loop_update:
  "(tv_optimizer (train_loop E (enumerate n bs) v), tv_model (train_loop E (enumerate n bs) v)) =
     foldl (\<lambda>om b. batch_update E b om) (tv_optimizer v, tv_model v) bs"
  by (induction bs arbitrary: n v) (simp_all add: train_body_update)

lemma train_loop_epoch_loss:
  "tv_epoch_loss (train_loop E (enumerate n bs) v) =
     foldl (float_add E) (tv_epoch_loss v)
       (map fst (batch_results E (tv_optimizer v, tv_model v) bs))"
  by (induction bs arbitrary: n v)
     (simp_all add: train_body_update train_body_epoch_loss Let_def)

lemma train_loop_accuracy:
  "tv_accuracy (train_loop E (enumerate n bs) v) =
     foldl (float_add E) (tv_accuracy v)
       (map (\<lambda>r. fst (snd r)) (batch_results E (tv_optimizer v, tv_model v) bs))"
  by (induction bs arbitrary: n v)
     (simp_all add: train_body_update train_body_accuracy Let_def)

lemma num_examples_pos_nonempty: "0 < num_examples bs \<Longrightarrow> bs \<noteq> []"
  by (auto simp: num_examples_def)

text \<open>
  Claim C3. On a loader that yields at least one example, \<open>train\<close> returns the pair of
  \<open>epoch_loss\<close> divided by the number of batches and \<open>accuracy\<close> divided by
  \<open>count\<close>, where \<open>epoch_loss\<close> is the sum, from \<open>0.0\<close> and in batch order, of the
  per-batch losses, \<open>accuracy\<close> is the like sum of the per-batch values of
  \<open>metric_fn(pred, target, stdev)\<close>, and \<open>count\<close> is the number of examples of the pass.
  Each batch is taken at the parameters left by the steps of the batches before it. The
  optimizer and model returned are those after one update per batch, in batch order.
\<close>

theorem train_returns_epoch_means:
  assumes "0 < num_examples data_loader"
  shows "train E optimizer m data_loader =
     Inr ((float_div E
             (foldl (float_add E) (Finite 0)
                (map fst (batch_results E (optimizer, m\<lparr>training := True\<rparr>) data_loader)))
             (Finite (real (length data_loader))),
           float_div E
             (foldl (float_add E) (Finite 0)
                (map (\<lambda>r. fst (snd r))
                   (batch_results E (optimizer, m\<lparr>training := True\<rparr>) data_loader)))
             (Finite (real (num_examples data_loader)))),
          foldl (\<lambda>om b. batch_update E b om) (optimizer, m\<lparr>training := True\<rparr>) data_loader)"
proof -
  let ?init = "\<lparr>tv_it = None, tv_epoch_loss = Finite 0, tv_accuracy = Finite 0, tv_count = 0,
              tv_optimizer = optimizer, tv_model = m\<lparr>training := True\<rparr>\<rparr>"
  let ?fin = "train_loop E (enumerate 0 data_loader) ?init"
  from assms have ne: "data_loader \<noteq> []" by (rule num_examples_pos_nonempty)
  have it: "tv_it ?fin = Some (length data_loader - 1)"
    using ne by (simp add: train_loop_it)
  have cnt: "tv_count ?fin = num_examples data_loader"
    by (simp add: train_loop_count)
  have upd: "(tv_optimizer ?fin, tv_model ?fin) =
      foldl (\<lambda>om b. batch_update E b om) (optimizer, m\<lparr>training := True\<rparr>) data_loader"
    using train_loop_update [of E 0 data_loader ?init] by simp
  have el: "tv_epoch_loss ?fin = foldl (float_add E) (Finite 0)
      (map fst (batch_results E (optimizer, m\<lparr>training := True\<rparr>) data_loader))"
    using train_loop_epoch_loss [of E 0 data_loader ?init] by simp
  have ac: "tv_accuracy ?fin = foldl (float_add E) (Finite 0)
      (map (\<lambda>r. fst (snd r)) (batch_results E (optimizer, m\<lparr>training := True\<rparr>) data_loader))"
    using train_loop_accuracy [of E 0 data_loader ?init] by simp
  have len: "Suc (length data_loader - 1) = length data_loader"
    using ne by (cases data_loader) simp_all
  have "train E optimizer m data_loader =
      Inr ((float_div E (tv_epoch_loss ?fin) (Finite (real (length data_loader))),
            float_div E (tv_accuracy ?fin) (Finite (real (num_examples data_loader)))),
           tv_optimizer ?fin, tv_model ?fin)"
    using assms ne it cnt len
    by (simp add: train_def Let_def py_truediv_def del: of_nat_Suc)
  then show ?thesis
    by (simp only: el ac upd)
qed

text \<open>The statement at a concrete input, on the one-parameter model.\<close>

theorem train_returns_epoch_means_witness:
  "0 < num_examples [toy_batch, toy_batch3] \<and>
   train (toy_env (Finite 6)) 0 toy_model [toy_batch, toy_batch3] =
     Inr ((Finite 1, Finite 3), 2, \<lparr>state_dict = 5, training = True, grad = 1\<rparr>)"
  using train_returns_epoch_means [of "[toy_batch, toy_batch3]" "toy_env (Finite 6)" 0 toy_model]
  by (simp add: toy_defs num_examples_def batch_update_def)

lemma eval_loop_count:
  "snd (eval_loop E m bs (a, c)) = c + num_examples bs"
  by (induction bs arbitrary: a c) (simp_all add: num_examples_def Let_def)

lemma evaluate_count_zero:
  assumes "num_examples data_loader = 0"
  shows "evaluate E m data_loader = Inl ZeroDivisionError"
proof -
  obtain a c where ac: "eval_loop E (m\<lparr>training := False\<rparr>) data_loader (Finite 0, 0) = (a, c)"
    by (cases "eval_loop E (m\<lparr>training := False\<rparr>) data_loader (Finite 0, 0)")
  from eval_loop_count [of E "m\<lparr>training := False\<rparr>" data_loader "Finite 0" 0] ac assms
  have "c = 0" by simp
  with ac show ?thesis by (simp add: evaluate_def py_truediv_def)
qed

lemma evaluate_count_pos:
  assumes "0 < num_examples data_loader"
  shows "evaluate E m data_loader =
     Inr (float_div E (fst (eval_loop E (m\<lparr>training := False\<rparr>) data_loader (Finite 0, 0)))
            (Finite (real (num_examples data_loader))),
          m\<lparr>training := False\<rparr>)"
proof -
  obtain a c where ac: "eval_loop E (m\<lparr>training := False\<rparr>) data_loader (Finite 0, 0) = (a, c)"
    by (cases "eval_loop E (m\<lparr>training := False\<rparr>) data_loader (Finite 0, 0)")
  from eval_loop_count [of E "m\<lparr>training := False\<rparr>" data_loader "Finite 0" 0] ac
  have "c = num_examples data_loader" by simp
  with ac assms show ?thesis by (simp add: evaluate_def py_truediv_def)
qed

text \<open>
  Claim C4. On a loader that yields at least one example, \<open>evaluate\<close> returns an
  accuracy and leaves the parameters and the gradient accumulator of the model as they
  were (it only sets the mode flag to inference); run again on the model it left and the
  same batches, it returns the same accuracy and the same model.
\<close>

theorem evaluate_idempotent:
  assumes "0 < num_examples data_loader"
  shows "\<exists>a m'. evaluate E m data_loader = Inr (a, m') \<and>
                 evaluate E m' data_loader = Inr (a, m') \<and>
                 state_dict m' = state_dict m \<and> grad m' = grad m"
proof -
  let ?m' = "m\<lparr>training := False\<rparr>"
  let ?a = "float_div E (fst (eval_loop E ?m' data_loader (Finite 0, 0)))
              (Finite (real (num_examples data_loader)))"
  have first: "evaluate E m data_loader = Inr (?a, ?m')"
    using assms by (rule evaluate_count_pos)
  have "evaluate E ?m' data_loader = Inr (?a, ?m')"
    using evaluate_count_pos [OF assms, of E ?m'] by simp
  with first show ?thesis by simp
qed

text \<open>The statement at a concrete input, on the one-parameter model.\<close>

theorem evaluate_idempotent_witness:
  "0 < num_examples [toy_batch, toy_batch3] \<and>
   evaluate (toy_env (Finite 2)) (toy_model\<lparr>training := True\<rparr>) [toy_batch, toy_batch3] =
     Inr (Finite 1, toy_model) \<and>
   evaluate (toy_env (Finite 2)) toy_model [toy_batch, toy_batch3] = Inr (Finite 1, toy_model)"
  using evaluate_idempotent [of "[toy_batch, toy_batch3]" "toy_env (Finite 2)"
          "toy_model\<lparr>training := True\<rparr>"]
  by (simp add: toy_defs num_examples_def evaluate_def py_truediv_def)

text \<open>
  Claim C8. On a loader that yields no example (no batch, or only batches without
  examples) \<open>evaluate\<close> raises \<open>ZeroDivisionError\<close>, whatever the model: \<open>count\<close> is
  still zero at the final division.
\<close>

theorem evaluate_empty_loader_fails:
  "num_examples data_loader = 0 \<Longrightarrow> evaluate E m data_loader = Inl ZeroDivisionError"
  by (rule evaluate_count_zero)

text \<open>The statement at a concrete input, on the one-parameter model.\<close>

theorem evaluate_empty_loader_fails_witness:
  "num_examples [toy_batch0, toy_batch0] = 0 \<and>
   evaluate (toy_env (Finite 2)) toy_model [toy_batch0, toy_batch0] = Inl ZeroDivisionError"
  using evaluate_empty_loader_fails [of "[toy_batch0, toy_batch0]" "toy_env (Finite 2)" toy_model]
  by (simp add: toy_batch0_def num_examples_def)

text \<open>
  Claim C10. On a loader that yields no batch \<open>train\<close> raises \<open>UnboundLocalError\<close>: the
  loop index \<open>it\<close> read by \<open>epoch_loss /= it + 1\<close> was never assigned. It neither returns
  a pair nor raises \<open>ZeroDivisionError\<close>.
\<close>

theorem train_zero_batches_unbound:
  "train E optimizer m [] = Inl UnboundLocalError \<and>
   train E optimizer m [] \<noteq> Inl ZeroDivisionError \<and>
   (\<forall>r. train E optimizer m [] \<noteq> Inr r)"
  by (simp add: train_def)

text \<open>The statement at a concrete input, on the one-parameter model.\<close>

theorem train_zero_batches_unbound_witness:
  "train (toy_env (Finite 2)) 0 toy_model [] = Inl UnboundLocalError"
  using train_zero_batches_unbound [of "toy_env (Finite 2)" 0 toy_model]
  by simp

text \<open>
  Claim C2, as the code has it. One iteration of the loop of \<open>train\<close> adds to
  \<open>epoch_loss\<close> the loss of the prediction against the normalised target, resets the
  gradient accumulator, accumulates the gradient of that loss onto the reset accumulator,
  and takes one optimizer step with the result. The accumulator is not reset after the
  step: it still holds the batch's gradient when the iteration ends. The mode flag is not
  touched.
\<close>

theorem train_body_order:
  "tv_epoch_loss (train_body E i b v) =
     float_add E (tv_epoch_loss v)
       (loss_fn E (forward E (training (tv_model v)) (state_dict (tv_model v))
                     (batched_graph b) (label_reaction b)) (label_value b)) \<and>
   grad (tv_model (train_body E i b v)) =
     backward E (training (tv_model v)) (state_dict (tv_model v)) b
       (zero_grad E (grad (tv_model v))) \<and>
   (tv_optimizer (train_body E i b v), state_dict (tv_model (train_body E i b v))) =
     opt_step E (tv_optimizer v) (state_dict (tv_model v))
       (backward E (training (tv_model v)) (state_dict (tv_model v)) b
          (zero_grad E (grad (tv_model v)))) \<and>
   training (tv_model (train_body E i b v)) = training (tv_model v)"
  by (simp add: train_body_def Let_def split: prod.split)

text \<open>The statement at a concrete input, on the one-parameter model.\<close>

theorem train_body_order_witness:
  "grad (tv_model (train_body (toy_env (Finite 2)) 0 toy_batch toy_vars)) = 1 \<and>
   state_dict (tv_model (train_body (toy_env (Finite 2)) 0 toy_batch toy_vars)) = 6 \<and>
   tv_optimizer (train_body (toy_env (Finite 2)) 0 toy_batch toy_vars) = 1 \<and>
   tv_epoch_loss (train_body (toy_env (Finite 2)) 0 toy_batch toy_vars) = Finite 1"
  using train_body_order [of "toy_env (Finite 2)" 0 toy_batch toy_vars]
  by (simp add: toy_defs)

text \<open>
  Claim C2 as stated puts the reset after the step. On the one-parameter model, from a
  fresh accumulator, the code's iteration and that order end in different states: the
  code leaves the gradient \<open>1\<close> of the batch in the accumulator, the stated order
  leaves \<open>0\<close>.
\<close>

theorem reset_after_step_counterexample:
  "(tv_optimizer (train_body (toy_env (Finite 2)) 0 toy_batch toy_vars),
    tv_model (train_body (toy_env (Finite 2)) 0 toy_batch toy_vars)) \<noteq>
   batch_update_reset_after (toy_env (Finite 2)) toy_batch
     (tv_optimizer toy_vars, tv_model toy_vars) \<and>
   grad (tv_model (train_body (toy_env (Finite 2)) 0 toy_batch toy_vars)) = 1 \<and>
   grad (snd (batch_update_reset_after (toy_env (Finite 2)) toy_batch
     (tv_optimizer toy_vars, tv_model toy_vars))) = 0"
  by (simp add: toy_defs train_body_def batch_update_reset_after_def)

section \<open>Facts about the checkpoint block and the epochs\<close>

lemma save_seq_snoc:
  "save_seq (calls @ [(v, sd)]) s = maybe_save v sd (save_seq calls s)"
  by (simp add: save_seq_def)

lemma epoch_body_Inr:
  assumes "epoch_body E ld epoch s = Inr s'"
  shows "\<exists>loss train_acc val_acc opt1 m1 m2.
           train E (nb_optimizer s) (nb_model s) (train_loader ld epoch) =
             Inr ((loss, train_acc), opt1, m1) \<and>
           evaluate E m1 (val_loader ld) = Inr (val_acc, m2) \<and>
           s' = (maybe_save val_acc (state_dict m2) (s\<lparr>nb_model := m2, nb_optimizer := opt1\<rparr>))
                  \<lparr>stdout := stdout s @ [Progress epoch loss train_acc val_acc]\<rparr>"
proof -
  from assms obtain loss train_acc opt1 m1 where
    tr: "train E (nb_optimizer s) (nb_model s) (train_loader ld epoch) =
           Inr ((loss, train_acc), opt1, m1)"
    by (auto simp: epoch_body_def split: sum.splits prod.splits)
  with assms obtain val_acc m2 where
    ev: "evaluate E m1 (val_loader ld) = Inr (val_acc, m2)"
    by (auto simp: epoch_body_def split: sum.splits prod.splits)
  from assms tr ev
  have "s' = (maybe_save val_acc (state_dict m2) (s\<lparr>nb_model := m2, nb_optimizer := opt1\<rparr>))
               \<lparr>stdout := stdout s @ [Progress epoch loss train_acc val_acc]\<rparr>"
    by (auto simp: epoch_body_def Let_def maybe_save_def)
  with tr ev show ?thesis by blast
qed

lemma epoch_body_effect:
  assumes "epoch_body E ld epoch s = Inr s'"
  shows "\<exists>loss train_acc val_acc.
           stdout s' = stdout s @ [Progress epoch loss train_acc val_acc] \<and>
           (if float_lt val_acc (best s)
            then best s' = val_acc \<and> save_calls s' = Suc (save_calls s) \<and>
                 checkpoint_pkl s' = Some (state_dict (nb_model s'))
            else best s' = best s \<and> save_calls s' = save_calls s \<and>
                 checkpoint_pkl s' = checkpoint_pkl s)"
proof -
  from epoch_body_Inr [OF assms] obtain loss train_acc val_acc opt1 m1 m2 where
    tr: "train E (nb_optimizer s) (nb_model s) (train_loader ld epoch) =
           Inr ((loss, train_acc), opt1, m1)" and
    s': "s' = (maybe_save val_acc (state_dict m2) (s\<lparr>nb_model := m2, nb_optimizer := opt1\<rparr>))
               \<lparr>stdout := stdout s @ [Progress epoch loss train_acc val_acc]\<rparr>"
    by blast
  have "stdout s' = stdout s @ [Progress epoch loss train_acc val_acc]"
    by (simp add: s')
  moreover have "if float_lt val_acc (best s)
            then best s' = val_acc \<and> save_calls s' = Suc (save_calls s) \<and>
                 checkpoint_pkl s' = Some (state_dict (nb_model s'))
            else best s' = best s \<and> save_calls s' = save_calls s \<and>
                 checkpoint_pkl s' = checkpoint_pkl s"
    by (simp add: s' maybe_save_def)
  ultimately show ?thesis by blast
qed

lemma epoch_loop_append:
  "epoch_loop E ld (xs @ ys) s =
     (case epoch_loop E ld xs s of Inl e \<Rightarrow> Inl e | Inr s' \<Rightarrow> epoch_loop E ld ys s')"
  by (induction xs arbitrary: s) (simp_all split: sum.splits)

lemma epoch_loop_saves:
  "epoch_loop E ld es s = Inr s' \<Longrightarrow>
     save_calls s \<le> save_calls s' \<and>
     (save_calls s' = save_calls s \<longrightarrow> checkpoint_pkl s' = checkpoint_pkl s \<and> best s' = best s)"
proof (induction es arbitrary: s)
  case Nil
  then show ?case by simp
next
  case (Cons epoch es)
  from Cons.prems obtain s1 where
    b: "epoch_body E ld epoch s = Inr s1" and l: "epoch_loop E ld es s1 = Inr s'"
    by (auto split: sum.splits)
  from epoch_body_effect [OF b]
  have one: "save_calls s \<le> save_calls s1 \<and>
     (save_calls s1 = save_calls s \<longrightarrow> checkpoint_pkl s1 = checkpoint_pkl s \<and> best s1 = best s)"
    by (auto split: if_splits)
  from Cons.IH [OF l] one show ?case by auto
qed


lemma main_load_fails:
  "run_epochs E n ld m optimizer file0 = Inr s \<Longrightarrow> checkpoint_pkl s = None \<Longrightarrow>
     main E n ld m optimizer file0 = Inl FileNotFoundError"
  by (simp add: main_def torch_load_def)

text \<open>
  Claim C1. The checkpoint block saves exactly when the current validation metric is
  strictly smaller than \<open>best\<close>. In every finite sequence of calls, a call whose metric is
  below the value \<open>best\<close> has at that moment writes the given state to \<open>checkpoint.pkl\<close>,
  sets \<open>best\<close> to the metric and is one more save; every other call leaves the state as it
  is. Started with \<open>best = 1e10\<close>, the metrics \<open>5.0, 3.0, 4.0, 2.0\<close> end with
  \<open>best = 2.0\<close>, the last state on file, and exactly three saves.
\<close>

theorem maybe_save_iff_strictly_smaller:
  "(\<forall>i < length calls.
      save_seq (take (Suc i) calls) s =
        (if float_lt (fst (calls ! i)) (best (save_seq (take i calls) s))
         then (save_seq (take i calls) s)
                \<lparr>best := fst (calls ! i), checkpoint_pkl := Some (snd (calls ! i)),
                 save_calls := Suc (save_calls (save_seq (take i calls) s))\<rparr>
         else save_seq (take i calls) s)) \<and>
   (best s = Finite 10000000000 \<longrightarrow>
      save_seq [(Finite 5, sd1), (Finite 3, sd2), (Finite 4, sd3), (Finite 2, sd4)] s =
        s\<lparr>best := Finite 2, checkpoint_pkl := Some sd4, save_calls := save_calls s + 3\<rparr>)"
proof (intro conjI allI impI)
  fix i
  assume i: "i < length calls"
  obtain v sd where c: "calls ! i = (v, sd)" by (cases "calls ! i")
  have "take (Suc i) calls = take i calls @ [(v, sd)]"
    using i c by (simp add: take_Suc_conv_app_nth)
  then have "save_seq (take (Suc i) calls) s = maybe_save v sd (save_seq (take i calls) s)"
    by (simp add: save_seq_snoc)
  then show "save_seq (take (Suc i) calls) s =
        (if float_lt (fst (calls ! i)) (best (save_seq (take i calls) s))
         then (save_seq (take i calls) s)
                \<lparr>best := fst (calls ! i), checkpoint_pkl := Some (snd (calls ! i)),
                 save_calls := Suc (save_calls (save_seq (take i calls) s))\<rparr>
         else save_seq (take i calls) s)"
    by (simp add: c maybe_save_def)
next
  assume "best s = Finite 10000000000"
  then show "save_seq [(Finite 5, sd1), (Finite 3, sd2), (Finite 4, sd3), (Finite 2, sd4)] s =
        s\<lparr>best := Finite 2, checkpoint_pkl := Some sd4, save_calls := save_calls s + 3\<rparr>"
    by (simp add: save_seq_def maybe_save_def)
qed

text \<open>The statement at a concrete input, on the one-parameter model.\<close>

theorem maybe_save_iff_strictly_smaller_witness:
  "best toy_notebook = Finite 10000000000 \<and>
   save_seq [(Finite 5, 50), (Finite 3, 30), (Finite 4, 40), (Finite 2, 20)] toy_notebook =
     toy_notebook\<lparr>best := Finite 2, checkpoint_pkl := Some 20, save_calls := 3\<rparr> \<and>
   save_seq (take 2 toy_calls) toy_notebook =
     toy_notebook\<lparr>best := Finite 3, checkpoint_pkl := Some 30, save_calls := 2\<rparr> \<and>
   save_seq (take 3 toy_calls) toy_notebook = save_seq (take 2 toy_calls) toy_notebook"
  using maybe_save_iff_strictly_smaller
          [where calls = toy_calls and s = toy_notebook and ?sd1.0 = 50 and ?sd2.0 = 30
             and ?sd3.0 = 40 and ?sd4.0 = 20]
  by (simp add: toy_notebook_def toy_calls_def save_seq_def maybe_save_def)

text \<open>
  Claim C6. In every state of the cell, the checkpoint block called with a NaN metric
  changes nothing: no file is written and \<open>best\<close> stays. Whatever values the training
  and evaluation passes of an epoch return, finite or not, the epoch goes on to print
  exactly these values in its progress line; a NaN validation metric is printed and
  leaves \<open>best\<close>, the file and the number of saves as they were.
\<close>

theorem nan_metric_never_checkpointed:
  "maybe_save NaN sd s = s \<and>
   (train E (nb_optimizer s) (nb_model s) (train_loader ld epoch) =
        Inr ((loss, train_acc), opt1, m1) \<longrightarrow>
    evaluate E m1 (val_loader ld) = Inr (val_acc, m2) \<longrightarrow>
    (\<exists>s'. epoch_body E ld epoch s = Inr s' \<and>
           stdout s' = stdout s @ [Progress epoch loss train_acc val_acc] \<and>
           (val_acc = NaN \<longrightarrow>
              best s' = best s \<and> checkpoint_pkl s' = checkpoint_pkl s \<and>
              save_calls s' = save_calls s)))"
  by (simp add: maybe_save_def epoch_body_def Let_def)

text \<open>The statement at a concrete input, on the one-parameter model.\<close>

theorem nan_metric_never_checkpointed_witness:
  "train (toy_env NaN) 0 toy_model [toy_batch] =
     Inr ((Finite 1, NaN), 1, \<lparr>state_dict = 6, training = True, grad = 1\<rparr>) \<and>
   evaluate (toy_env NaN) \<lparr>state_dict = 6, training = True, grad = 1\<rparr> [toy_batch] =
     Inr (NaN, \<lparr>state_dict = 6, training = False, grad = 1\<rparr>) \<and>
   epoch_body (toy_env NaN) toy_loaders 0 toy_notebook =
     Inr (toy_notebook\<lparr>nb_model := \<lparr>state_dict = 6, training = False, grad = 1\<rparr>,
            nb_optimizer := 1,
            stdout := [Header, Progress 0 (Finite 1) NaN NaN]\<rparr>) \<and>
   maybe_save NaN 6 toy_notebook = toy_notebook"
  using nan_metric_never_checkpointed
          [where E = "toy_env NaN" and s = toy_notebook and ld = toy_loaders and epoch = 0
             and loss = "Finite 1" and train_acc = NaN and ?opt1.0 = 1
             and ?m1.0 = "\<lparr>state_dict = 6, training = True, grad = 1\<rparr>"
             and val_acc = NaN
             and ?m2.0 = "\<lparr>state_dict = 6, training = False, grad = 1\<rparr>" and sd = 6]
  by (simp add: toy_defs run_defs)

text \<open>
  Claim C7. \<open>torch.load\<close> on an absent \<open>checkpoint.pkl\<close> raises \<open>FileNotFoundError\<close>.
  So does the whole cell when it is run with zero epochs and no file is there, and, for
  any number of epochs, when no file was there at the start and the loop ended without a
  single save.
\<close>

theorem load_without_checkpoint_fails:
  "torch_load None = Inl FileNotFoundError \<and>
   main E 0 ld m optimizer None = Inl FileNotFoundError \<and>
   (run_epochs E n ld m optimizer None = Inr s \<longrightarrow> save_calls s = 0 \<longrightarrow>
      main E n ld m optimizer None = Inl FileNotFoundError)"
proof (intro conjI impI)
  show "torch_load None = Inl FileNotFoundError"
    by (simp add: torch_load_def)
  show "main E 0 ld m optimizer None = Inl FileNotFoundError"
    by (simp add: main_def run_epochs_def torch_load_def)
next
  assume r: "run_epochs E n ld m optimizer None = Inr s" and z: "save_calls s = 0"
  from r epoch_loop_saves [of E ld "[0..<n]" _ s] z
  have "checkpoint_pkl s = None"
    by (simp add: run_epochs_def)
  with r show "main E n ld m optimizer None = Inl FileNotFoundError"
    by (rule main_load_fails)
qed

text \<open>The statement at a concrete input, on the one-parameter model.\<close>

theorem load_without_checkpoint_fails_witness:
  "run_epochs (toy_env NaN) 2 toy_loaders toy_model 0 None =
     Inr \<lparr>nb_model = \<lparr>state_dict = 5, training = False, grad = 1\<rparr>, nb_optimizer = 2,
          best = Finite 10000000000, checkpoint_pkl = None,
          stdout = [Header, Progress 0 (Finite 1) NaN NaN, Progress 1 (Finite 1) NaN NaN],
          save_calls = 0\<rparr> \<and>
   main (toy_env NaN) 2 toy_loaders toy_model 0 None = Inl FileNotFoundError \<and>
   main (toy_env NaN) 0 toy_loaders toy_model 0 None = Inl FileNotFoundError"
  using load_without_checkpoint_fails
          [where E = "toy_env NaN" and n = 2 and ld = toy_loaders and m = toy_model
             and optimizer = 0
             and s = "\<lparr>nb_model = \<lparr>state_dict = 5, training = False, grad = 1\<rparr>,
                       nb_optimizer = 2, best = Finite 10000000000, checkpoint_pkl = None,
                       stdout = [Header, Progress 0 (Finite 1) NaN NaN,
                                 Progress 1 (Finite 1) NaN NaN],
                       save_calls = 0\<rparr>"]
  by (simp add: toy_defs run_defs upt_0_2)




lemma epoch_body_view:
  "map_sum id driver_view (epoch_body E ld epoch s) = spec_epoch E ld epoch (driver_view s)"
  by (simp add: epoch_body_def spec_epoch_def driver_view_def maybe_save_def
        spec_maybe_save_def Let_def split: sum.splits prod.splits)

lemma epoch_loop_view:
  "map_sum id driver_view (epoch_loop E ld [0..<n] s) = spec_epochs E ld n (driver_view s)"
proof (induction n)
  case 0
  show ?case by simp
next
  case (Suc n)
  show ?case
  proof (cases "epoch_loop E ld [0..<n] s")
    case (Inl e)
    with Suc have "spec_epochs E ld n (driver_view s) = Inl e" by simp
    with Inl show ?thesis by (simp add: epoch_loop_append)
  next
    case (Inr s1)
    with Suc have "spec_epochs E ld n (driver_view s) = Inr (driver_view s1)" by simp
    with Inr show ?thesis
      by (simp add: epoch_loop_append epoch_body_view [symmetric] split: sum.splits)
  qed
qed

lemma epoch_loop_lines:
  "epoch_loop E ld es s = Inr s' \<Longrightarrow>
     \<exists>rs. length rs = length es \<and>
          stdout s' = stdout s @ map (\<lambda>(e, l, t, v). Progress e l t v) (zip es rs)"
proof (induction es arbitrary: s)
  case Nil
  then show ?case by simp
next
  case (Cons epoch es)
  from Cons.prems obtain s1 where
    b: "epoch_body E ld epoch s = Inr s1" and l: "epoch_loop E ld es s1 = Inr s'"
    by (auto split: sum.splits)
  from epoch_body_effect [OF b] obtain loss train_acc val_acc where
    out1: "stdout s1 = stdout s @ [Progress epoch loss train_acc val_acc]"
    by blast
  from Cons.IH [OF l] obtain rs where
    len: "length rs = length es" and
    out2: "stdout s' = stdout s1 @ map (\<lambda>(e, l, t, v). Progress e l t v) (zip es rs)"
    by blast
  let ?rs = "(loss, train_acc, val_acc) # rs"
  have "length ?rs = length (epoch # es)" using len by simp
  moreover have "stdout s' =
      stdout s @ map (\<lambda>(e, l, t, v). Progress e l t v) (zip (epoch # es) ?rs)"
    using out1 out2 by simp
  ultimately show ?case by blast
qed

text \<open>
  Claim C5. For every number of epochs the cell does what the driver in terms of a
  checkpoint manager does: for each epoch \<open>0, \<dots>, n - 1\<close> in order one training pass,
  one evaluation pass on the validation split, one checkpoint decision on the validation
  accuracy and the model's state, one progress record; then the load of the checkpoint,
  the restoring of the model's state, the evaluation on the test split and the test
  record. Errors included, the two agree. A run that succeeds has printed the header, one
  progress line for each epoch \<open>0, \<dots>, n - 1\<close> in order, and the test line.
\<close>

theorem driver_epochs_then_test:
  "map_sum id driver_view (main E n ld m optimizer file0) =
     spec_driver E n ld
       \<lparr>predictor = m, ds_optimizer = optimizer,
        manager = \<lparr>best_so_far = Finite 10000000000, storage = file0\<rparr>,
        emitted = [Header]\<rparr> \<and>
   (\<forall>s. main E n ld m optimizer file0 = Inr s \<longrightarrow>
      (\<exists>rs test_acc. length rs = n \<and>
         stdout s = Header # map (\<lambda>(e, l, t, v). Progress e l t v) (zip [0..<n] rs)
                      @ [TestAcc test_acc]))"
proof (intro conjI allI impI)
  let ?s0 = "\<lparr>nb_model = m, nb_optimizer = optimizer, best = Finite 10000000000,
              checkpoint_pkl = file0, stdout = [Header], save_calls = 0\<rparr>"
  let ?d0 = "\<lparr>predictor = m, ds_optimizer = optimizer,
        manager = \<lparr>best_so_far = Finite 10000000000, storage = file0\<rparr>,
        emitted = [Header]\<rparr>"
  have d0: "driver_view ?s0 = ?d0" by (simp add: driver_view_def)
  have loop: "map_sum id driver_view (epoch_loop E ld [0..<n] ?s0) = spec_epochs E ld n ?d0"
    using epoch_loop_view [of E ld n ?s0] by (simp only: d0)
  show "map_sum id driver_view (main E n ld m optimizer file0) = spec_driver E n ld ?d0"
  proof (cases "epoch_loop E ld [0..<n] ?s0")
    case (Inl e)
    with loop have "spec_epochs E ld n ?d0 = Inl e" by simp
    with Inl show ?thesis
      by (simp add: main_def run_epochs_def spec_driver_def)
  next
    case (Inr s1)
    with loop have "spec_epochs E ld n ?d0 = Inr (driver_view s1)" by simp
    with Inr show ?thesis
      by (simp add: main_def run_epochs_def spec_driver_def torch_load_def spec_load_best_def
            driver_view_def split: option.splits sum.splits prod.splits)
  qed
next
  fix s
  assume ok: "main E n ld m optimizer file0 = Inr s"
  then obtain s1 where r: "run_epochs E n ld m optimizer file0 = Inr s1"
    by (auto simp: main_def split: sum.splits)
  with ok obtain test_acc where out: "stdout s = stdout s1 @ [TestAcc test_acc]"
    by (auto simp: main_def split: sum.splits prod.splits)
  from r have "epoch_loop E ld [0..<n]
      \<lparr>nb_model = m, nb_optimizer = optimizer, best = Finite 10000000000,
       checkpoint_pkl = file0, stdout = [Header], save_calls = 0\<rparr> = Inr s1"
    by (simp add: run_epochs_def)
  from epoch_loop_lines [OF this] obtain rs where
    "length rs = n" and
    "stdout s1 = Header # map (\<lambda>(e, l, t, v). Progress e l t v) (zip [0..<n] rs)"
    by auto
  with out show "\<exists>rs test_acc. length rs = n \<and>
         stdout s = Header # map (\<lambda>(e, l, t, v). Progress e l t v) (zip [0..<n] rs)
                      @ [TestAcc test_acc]"
    by auto
qed

text \<open>The statement at a concrete input, on the one-parameter model.\<close>

theorem driver_epochs_then_test_witness:
  "main (toy_env (Finite 2)) 2 toy_loaders toy_model 0 None =
     Inr \<lparr>nb_model = \<lparr>state_dict = 6, training = False, grad = 1\<rparr>, nb_optimizer = 2,
          best = Finite 2, checkpoint_pkl = Some 6,
          stdout = [Header, Progress 0 (Finite 1) (Finite 2) (Finite 2),
                    Progress 1 (Finite 1) (Finite 2) (Finite 2), TestAcc (Finite 2)],
          save_calls = 1\<rparr> \<and>
   spec_driver (toy_env (Finite 2)) 2 toy_loaders
     \<lparr>predictor = toy_model, ds_optimizer = 0,
      manager = \<lparr>best_so_far = Finite 10000000000, storage = None\<rparr>,
      emitted = [Header]\<rparr> =
     Inr \<lparr>predictor = \<lparr>state_dict = 6, training = False, grad = 1\<rparr>, ds_optimizer = 2,
          manager = \<lparr>best_so_far = Finite 2, storage = Some 6\<rparr>,
          emitted = [Header, Progress 0 (Finite 1) (Finite 2) (Finite 2),
                     Progress 1 (Finite 1) (Finite 2) (Finite 2), TestAcc (Finite 2)]\<rparr>"
proof -
  have run: "main (toy_env (Finite 2)) 2 toy_loaders toy_model 0 None =
     Inr \<lparr>nb_model = \<lparr>state_dict = 6, training = False, grad = 1\<rparr>, nb_optimizer = 2,
          best = Finite 2, checkpoint_pkl = Some 6,
          stdout = [Header, Progress 0 (Finite 1) (Finite 2) (Finite 2),
                    Progress 1 (Finite 1) (Finite 2) (Finite 2), TestAcc (Finite 2)],
          save_calls = 1\<rparr>"
    by (simp add: toy_defs run_defs upt_0_2)
  from driver_epochs_then_test
         [where E = "toy_env (Finite 2)" and n = 2 and ld = toy_loaders and m = toy_model
            and optimizer = 0 and ?file0.0 = None]
  show ?thesis
    by (simp add: run driver_view_def)
qed

end
